theory Spec2Isabelle
  imports Complex_Main "HOL-Library.Sublist" "HOL-Library.Multiset"
begin

section \<open>Resume screener: the matching and ranking engine\<close>

text \<open>
  A shallow embedding of \<^verbatim>\<open>src/services/search_handler.py\<close> (class SearchHandler) and
  \<^verbatim>\<open>src/services/rank_handler.py\<close> (class RankHandler).

  Numbers. Python floats are modelled as exact reals: \<open>+\<close>, \<open>*\<close>, \<open>/\<close>, \<open>abs\<close>
  and the comparisons are the mathematical ones and \<open>np.linalg.norm\<close> is the exact
  Euclidean norm. Rounding, infinities and NaN are outside the model, so no bound is
  stated for a quotient that the code does not clamp (the cosine of the search path).

  Strings. A Python \<open>str\<close> is modelled as a \<open>string\<close> of ASCII characters;
  \<open>str.lower\<close> and \<open>str.strip\<close> are modelled on that range.

  Errors. A Python exception is a value \<open>Inl e\<close> of a sum type; a \<open>try/except\<close>
  that swallows it is the case distinction that maps \<open>Inl e\<close> to the handler's value.
\<close>

subsection \<open>Data model\<close>

datatype py_error = ValueError | TypeError | AttributeError

text \<open>
  \<^verbatim>\<open>CandidateProfile.total_experience = Column(JSON)\<close>: JSON null, a number, or a
  string (the search path compares the field with the empty string).
\<close>

datatype experience_field = ExpNull | ExpNum real | ExpStr string

text \<open>
  The value stored under the key \<^verbatim>\<open>"personal_info"\<close> of \<^verbatim>\<open>parsed_resume\<close>: the key is
  absent, its value is JSON null, or it is a dictionary whose \<^verbatim>\<open>"location"\<close> entry is
  absent/null (\<open>None\<close>) or a string.
\<close>

datatype personal_info = InfoAbsent | InfoNull | InfoDict "string option"

record candidate_profile =
  cand_id :: nat
  parsed_resume :: "personal_info option"
  resume_vector :: "real list option"
  total_experience :: experience_field

record job =
  job_id :: int
  location :: "string option"
  jd_vector :: "real list option"
  required_experience :: "real option"

text \<open>The read-only session: \<^verbatim>\<open>db.query(Job)\<close> and \<^verbatim>\<open>db.query(CandidateProfile).all()\<close>.\<close>

record db =
  jobs :: "job list"
  candidates :: "candidate_profile list"

subsection \<open>Vector similarity\<close>

text \<open>\<^verbatim>\<open>np.dot\<close> on two flat sequences: a shape mismatch raises ValueError.\<close>

definition np_dot :: "real list \<Rightarrow> real list \<Rightarrow> py_error + real" where
  "np_dot u v =
     (if length u \<noteq> length v then Inl ValueError
      else Inr (sum_list (map (\<lambda>(a, b). a * b) (zip u v))))"

definition linalg_norm :: "real list \<Rightarrow> real" where
  "linalg_norm v = sqrt (sum_list (map (\<lambda>a. a * a) v))"

text \<open>
  The loop of \<^verbatim>\<open>SearchHandler.calculate_skills_similarity\<close>. An entry of the query
  batch is \<open>None\<close> when the embedder failed on it (\<^verbatim>\<open>embed_text_batch\<close> returns
  \<^verbatim>\<open>List[Optional[List[float]]]\<close>); \<^verbatim>\<open>np.dot(None, v)\<close> raises TypeError.
\<close>

fun similarities :: "real list option list \<Rightarrow> real list \<Rightarrow> py_error + real list" where
  "similarities [] candidate_vector = Inr []"
| "similarities (None # vecs) candidate_vector = Inl TypeError"
| "similarities (Some vec # vecs) candidate_vector =
     (case np_dot vec candidate_vector of
        Inl e \<Rightarrow> Inl e
      | Inr dot_product \<Rightarrow>
          (let norm1 = linalg_norm vec; norm2 = linalg_norm candidate_vector in
           case similarities vecs candidate_vector of
             Inl e \<Rightarrow> Inl e
           | Inr rest \<Rightarrow>
               Inr (if norm1 \<noteq> 0 \<and> norm2 \<noteq> 0
                    then dot_product / (norm1 * norm2) # rest else rest)))"

text \<open>Python's \<open>max\<close> over a non-empty list, given as head and tail.\<close>

definition py_max :: "real \<Rightarrow> real list \<Rightarrow> real" where
  "py_max x xs = fold max xs x"

definition calculate_skills_similarity :: "real list option list \<Rightarrow> real list \<Rightarrow> real" where
  "calculate_skills_similarity query_vectors candidate_vector =
     (if query_vectors = [] \<or> candidate_vector = [] then 0
      else case similarities query_vectors candidate_vector of
             Inl e \<Rightarrow> 0
           | Inr [] \<Rightarrow> 0
           | Inr (s # ss) \<Rightarrow> py_max s ss)"

text \<open>\<^verbatim>\<open>RankHandler.calculate_skills_match\<close>: one cosine, clamped to [0, 1].\<close>

definition calculate_skills_match :: "real list \<Rightarrow> real list \<Rightarrow> real" where
  "calculate_skills_match candidate_vector job_vector =
     (if candidate_vector = [] \<or> job_vector = [] then 0
      else case np_dot candidate_vector job_vector of
             Inl e \<Rightarrow> 0
           | Inr dot_product \<Rightarrow>
               (let norm1 = linalg_norm candidate_vector; norm2 = linalg_norm job_vector in
                if norm1 \<noteq> 0 \<and> norm2 \<noteq> 0
                then max 0 (min 1 (dot_product / (norm1 * norm2))) else 0))"

subsection \<open>Location fuzzy match\<close>

text \<open>\<^verbatim>\<open>str.isspace\<close> on ASCII: tab, LF, VT, FF, CR, FS, GS, RS, US and space.\<close>

definition is_space :: "char \<Rightarrow> bool" where
  "is_space c = (let n = (of_char c :: nat) in (9 \<le> n \<and> n \<le> 13) \<or> (28 \<le> n \<and> n \<le> 32))"

definition strip :: "string \<Rightarrow> string" where
  "strip s = rev (dropWhile is_space (rev (dropWhile is_space s)))"

definition lower_char :: "char \<Rightarrow> char" where
  "lower_char c =
     (let n = (of_char c :: nat) in if 65 \<le> n \<and> n \<le> 90 then char_of (n + 32) else c)"

definition lower :: "string \<Rightarrow> string" where
  "lower s = map lower_char s"

text \<open>\<^verbatim>\<open>s.split(',')\<close>: always at least one segment.\<close>

fun split_comma :: "string \<Rightarrow> string list" where
  "split_comma [] = [[]]"
| "split_comma (c # cs) =
     (if c = CHR '','' then [] # split_comma cs
      else case split_comma cs of
             [] \<Rightarrow> [[c]]
           | p # ps \<Rightarrow> (c # p) # ps)"

text \<open>\<^verbatim>\<open>needle in hay\<close> on strings.\<close>

fun str_in :: "string \<Rightarrow> string \<Rightarrow> bool" where
  "str_in needle [] = (needle = [])"
| "str_in needle (h # hs) = (prefix needle (h # hs) \<or> str_in needle hs)"

text \<open>
  The body of the inner loop: the similarity appended for one query part and one
  candidate part. \<^verbatim>\<open>sorted([query_part, candidate_part], key=len)\<close> is stable, so the
  query part is the shorter one when the lengths are equal.
\<close>

definition part_similarity :: "string \<Rightarrow> string \<Rightarrow> real" where
  "part_similarity query_part candidate_part =
     (if query_part = candidate_part then 1
      else if str_in query_part candidate_part \<or> str_in candidate_part query_part then 9 / 10
      else
        (let (shorter, longer) =
               (if length candidate_part < length query_part
                then (candidate_part, query_part) else (query_part, candidate_part))
         in if length longer = 0 then 0
            else real (length (filter (\<lambda>(a, b). a = b) (zip shorter longer)))
                 / real (length longer)))"

definition calculate_location_match :: "string \<Rightarrow> string \<Rightarrow> real" where
  "calculate_location_match query_location candidate_location =
     (if query_location = [] \<or> candidate_location = [] then 0
      else
        (let query_parts = map (\<lambda>q. lower (strip q)) (split_comma query_location);
             candidate_parts = map (\<lambda>c. lower (strip c)) (split_comma candidate_location);
             max_similarities =
               map (\<lambda>query_part.
                      case map (part_similarity query_part) candidate_parts of
                        [] \<Rightarrow> 0
                      | s # ss \<Rightarrow> py_max s ss)
                   query_parts
         in sum_list max_similarities / real (length query_parts)))"

subsection \<open>Experience-gap score\<close>

text \<open>
  \<^verbatim>\<open>SearchHandler.calculate_experience_match\<close>. A string argument makes
  \<^verbatim>\<open>candidate_experience - required_experience\<close> raise TypeError, which the
  function's own handler turns into 0.
\<close>

fun calculate_experience_match :: "experience_field \<Rightarrow> real option \<Rightarrow> real" where
  "calculate_experience_match ExpNull required = 0"
| "calculate_experience_match candidate_experience None = 0"
| "calculate_experience_match (ExpStr s) (Some y) = 0"
| "calculate_experience_match (ExpNum x) (Some y) =
     (let difference_years = \<bar>x - y\<bar> in
      if difference_years = 0 then 1
      else if difference_years \<le> 1 then 9 / 10
      else if difference_years \<le> 2 then 7 / 10
      else if difference_years \<le> 3 then 5 / 10
      else if difference_years \<le> 4 then 3 / 10
      else 1 / 10)"

text \<open>\<^verbatim>\<open>RankHandler.calculate_experience_match\<close>, the second copy of the function.\<close>

fun rank_calculate_experience_match :: "experience_field \<Rightarrow> real option \<Rightarrow> real" where
  "rank_calculate_experience_match ExpNull required = 0"
| "rank_calculate_experience_match candidate_experience None = 0"
| "rank_calculate_experience_match (ExpStr s) (Some y) = 0"
| "rank_calculate_experience_match (ExpNum x) (Some y) =
     (let difference_years = \<bar>x - y\<bar> in
      if difference_years = 0 then 1
      else if difference_years \<le> 1 then 9 / 10
      else if difference_years \<le> 2 then 7 / 10
      else if difference_years \<le> 3 then 5 / 10
      else if difference_years \<le> 4 then 3 / 10
      else 1 / 10)"

subsection \<open>Python truthiness, sorting and slicing\<close>

text \<open>\<^verbatim>\<open>if x\<close> for an optional list or string: \<open>None\<close> and the empty value are false.\<close>

definition truthy :: "'a list option \<Rightarrow> bool" where
  "truthy x = (case x of None \<Rightarrow> False | Some xs \<Rightarrow> xs \<noteq> [])"

definition unwrap :: "'a list option \<Rightarrow> 'a list" where
  "unwrap x = (case x of None \<Rightarrow> [] | Some xs \<Rightarrow> xs)"

text \<open>\<^verbatim>\<open>if x\<close> for an optional number: \<open>None\<close> and zero are false.\<close>

definition truthy_num :: "real option \<Rightarrow> bool" where
  "truthy_num x = (case x of None \<Rightarrow> False | Some y \<Rightarrow> y \<noteq> 0)"

text \<open>\<^verbatim>\<open>if candidate.total_experience\<close>: null, zero and the empty string are false.\<close>

definition truthy_exp :: "experience_field \<Rightarrow> bool" where
  "truthy_exp x = (case x of ExpNull \<Rightarrow> False | ExpNum y \<Rightarrow> y \<noteq> 0 | ExpStr s \<Rightarrow> s \<noteq> [])"

text \<open>\<^verbatim>\<open>x or 0.0\<close> for an optional score.\<close>

definition or_zero :: "real option \<Rightarrow> real" where
  "or_zero x = (case x of None \<Rightarrow> 0 | Some s \<Rightarrow> s)"

text \<open>
  \<^verbatim>\<open>sorted(xs, key=k, reverse=True)\<close>: a stable sort in descending key order, which is
  the stable ascending sort on the negated key.
\<close>

definition sorted_reverse :: "('a \<Rightarrow> real) \<Rightarrow> 'a list \<Rightarrow> 'a list" where
  "sorted_reverse k xs = sort_key (\<lambda>x. - k x) xs"

text \<open>\<^verbatim>\<open>xs[:limit]\<close>: a negative limit counts from the end of the list.\<close>

definition slice_to :: "int \<Rightarrow> 'a list \<Rightarrow> 'a list" where
  "slice_to limit xs =
     (if 0 \<le> limit then take (nat limit) xs else take (length xs - nat (- limit)) xs)"

text \<open>
  \<^verbatim>\<open>candidate.parsed_resume.get("personal_info", {}).get("location")\<close>: a null
  \<^verbatim>\<open>parsed_resume\<close> or a null \<^verbatim>\<open>personal_info\<close> raises AttributeError.
\<close>

definition profile_location :: "candidate_profile \<Rightarrow> py_error + string option" where
  "profile_location c =
     (case parsed_resume c of
        None \<Rightarrow> Inl AttributeError
      | Some InfoAbsent \<Rightarrow> Inr None
      | Some InfoNull \<Rightarrow> Inl AttributeError
      | Some (InfoDict l) \<Rightarrow> Inr l)"

subsection \<open>Search orchestrator\<close>

record search_scores =
  skills_score :: real
  location_score :: real
  experience_score :: real
  total_score :: real

record search_result =
  candidate :: candidate_profile
  scores :: search_scores

text \<open>\<^verbatim>\<open>SearchHandler.weights\<close>.\<close>

definition weights_skills :: real where "weights_skills = 6 / 10"
definition weights_location :: real where "weights_location = 2 / 10"
definition weights_experience :: real where "weights_experience = 2 / 10"

text \<open>The variables of one iteration of the loop over the candidates.\<close>

record candidate_state =
  st_skills_score :: "real option"
  st_location_score :: "real option"
  st_experience_score :: "real option"
  st_total_score :: real
  st_total_weight :: real

definition init_state :: candidate_state where
  "init_state =
     \<lparr>st_skills_score = None, st_location_score = None, st_experience_score = None,
      st_total_score = 0, st_total_weight = 0\<rparr>"

definition apply_skills ::
  "real list option list option \<Rightarrow> candidate_profile \<Rightarrow> candidate_state \<Rightarrow> candidate_state" where
  "apply_skills skills_vectors c st =
     (if truthy skills_vectors \<and> truthy (resume_vector c) then
        (let s = calculate_skills_similarity (unwrap skills_vectors) (unwrap (resume_vector c))
         in st\<lparr>st_skills_score := Some s,
               st_total_score := st_total_score st + s * weights_skills,
               st_total_weight := st_total_weight st + weights_skills\<rparr>)
      else st)"

definition apply_location ::
  "string option \<Rightarrow> candidate_profile \<Rightarrow> candidate_state \<Rightarrow> py_error + candidate_state" where
  "apply_location loc c st =
     (if \<not> truthy loc then Inr st
      else case profile_location c of
             Inl e \<Rightarrow> Inl e
           | Inr candidate_location \<Rightarrow>
               if truthy candidate_location then
                 (let s = calculate_location_match (unwrap loc) (unwrap candidate_location)
                  in Inr (st\<lparr>st_location_score := Some s,
                             st_total_score := st_total_score st + s * weights_location,
                             st_total_weight := st_total_weight st + weights_location\<rparr>))
               else Inr st)"

definition apply_experience ::
  "real option \<Rightarrow> candidate_profile \<Rightarrow> candidate_state \<Rightarrow> candidate_state" where
  "apply_experience required c st =
     (if truthy_num required \<and> total_experience c \<noteq> ExpStr [] then
        (let s = calculate_experience_match (total_experience c) required
         in st\<lparr>st_experience_score := Some s,
               st_total_score := st_total_score st + s * weights_experience,
               st_total_weight := st_total_weight st + weights_experience\<rparr>)
      else st)"

definition final_result :: "real \<Rightarrow> candidate_profile \<Rightarrow> candidate_state \<Rightarrow> search_result option" where
  "final_result min_score c st =
     (if st_total_weight st > 0 then
        (let final_score = st_total_score st / st_total_weight st in
         if final_score \<ge> min_score then
           Some \<lparr>candidate = c,
                 scores = \<lparr>skills_score = or_zero (st_skills_score st),
                           location_score = or_zero (st_location_score st),
                           experience_score = or_zero (st_experience_score st),
                           total_score = final_score\<rparr>\<rparr>
         else None)
      else None)"

text \<open>The state of one candidate after the three criteria.\<close>

definition candidate_scores ::
  "real list option list option \<Rightarrow> string option \<Rightarrow> real option \<Rightarrow> candidate_profile
     \<Rightarrow> py_error + candidate_state" where
  "candidate_scores skills_vectors loc required c =
     (case apply_location loc c (apply_skills skills_vectors c init_state) of
        Inl e \<Rightarrow> Inl e
      | Inr st \<Rightarrow> Inr (apply_experience required c st))"

text \<open>
  The loop over the candidates: the first exception leaves the loop (and is re-raised by
  \<^verbatim>\<open>search_candidates\<close>); otherwise the results are appended in candidate order.
\<close>

fun search_loop ::
  "real list option list option \<Rightarrow> string option \<Rightarrow> real option \<Rightarrow> real
     \<Rightarrow> candidate_profile list \<Rightarrow> py_error + search_result list" where
  "search_loop skills_vectors loc required min_score [] = Inr []"
| "search_loop skills_vectors loc required min_score (c # cs) =
     (case candidate_scores skills_vectors loc required c of
        Inl e \<Rightarrow> Inl e
      | Inr st \<Rightarrow>
          (case search_loop skills_vectors loc required min_score cs of
             Inl e \<Rightarrow> Inl e
           | Inr results \<Rightarrow>
               Inr (case final_result min_score c st of
                      None \<Rightarrow> results
                    | Some r \<Rightarrow> r # results)))"

definition search_candidates ::
  "db \<Rightarrow> real list option list option \<Rightarrow> string option \<Rightarrow> real option \<Rightarrow> real \<Rightarrow> int
     \<Rightarrow> py_error + search_result list" where
  "search_candidates d skills_vectors loc required min_score limit =
     (case search_loop skills_vectors loc required min_score (candidates d) of
        Inl e \<Rightarrow> Inl e
      | Inr results \<Rightarrow>
          Inr (slice_to limit (sorted_reverse (\<lambda>x. total_score (scores x)) results)))"

subsection \<open>Search summary\<close>

record score_distribution =
  excellent :: nat
  good :: nat
  fair :: nat

record search_summary =
  summary_count :: nat
  avg_score :: real
  max_score :: real
  summary_min_score :: real
  distribution :: score_distribution

definition get_search_summary :: "search_result list \<Rightarrow> search_summary" where
  "get_search_summary search_results =
     (if search_results = [] then
        \<lparr>summary_count = 0, avg_score = 0, max_score = 0, summary_min_score = 0,
         distribution = \<lparr>excellent = 0, good = 0, fair = 0\<rparr>\<rparr>
      else
        (let ss = map (\<lambda>r. total_score (scores r)) search_results in
         \<lparr>summary_count = length search_results,
          avg_score = (case ss of [] \<Rightarrow> 0 | _ # _ \<Rightarrow> sum_list ss / real (length ss)),
          max_score = (case ss of [] \<Rightarrow> 0 | s # rest \<Rightarrow> fold max rest s),
          summary_min_score = (case ss of [] \<Rightarrow> 0 | s # rest \<Rightarrow> fold min rest s),
          distribution =
            \<lparr>excellent = length (filter (\<lambda>s. s \<ge> 8 / 10) ss),
             good = length (filter (\<lambda>s. 6 / 10 \<le> s \<and> s < 8 / 10) ss),
             fair = length (filter (\<lambda>s. 5 / 10 \<le> s \<and> s < 6 / 10) ss)\<rparr>\<rparr>))"

subsection \<open>Ranking orchestrator\<close>

record rank_scores =
  rank_skills_score :: real
  rank_experience_score :: real
  rank_location_score :: real

record rank_result =
  rank_candidate :: candidate_profile
  rank_scores_of :: rank_scores
  rank_total_score :: real

text \<open>\<^verbatim>\<open>RankHandler.weights\<close>; no scoring function reads the title weight.\<close>

definition rank_weights_skills :: real where "rank_weights_skills = 4 / 10"
definition rank_weights_experience :: real where "rank_weights_experience = 3 / 10"
definition rank_weights_title :: real where "rank_weights_title = 2 / 10"
definition rank_weights_location :: real where "rank_weights_location = 1 / 10"

text \<open>The variables of one iteration: the \<^verbatim>\<open>scores\<close> dictionary and \<^verbatim>\<open>total_score\<close>.\<close>

definition rank_init :: "rank_scores \<times> real" where
  "rank_init =
     (\<lparr>rank_skills_score = 0, rank_experience_score = 0, rank_location_score = 0\<rparr>, 0)"

definition rank_skills :: "job \<Rightarrow> candidate_profile \<Rightarrow> rank_scores \<times> real \<Rightarrow> rank_scores \<times> real" where
  "rank_skills j c st =
     (if truthy (jd_vector j) \<and> truthy (resume_vector c) then
        (let s = calculate_skills_match (unwrap (resume_vector c)) (unwrap (jd_vector j))
         in ((fst st)\<lparr>rank_skills_score := s\<rparr>, snd st + s * rank_weights_skills))
      else st)"

definition rank_experience ::
  "job \<Rightarrow> candidate_profile \<Rightarrow> rank_scores \<times> real \<Rightarrow> rank_scores \<times> real" where
  "rank_experience j c st =
     (if truthy_num (required_experience j) \<and> truthy_exp (total_experience c) then
        (let s = rank_calculate_experience_match (total_experience c) (required_experience j)
         in ((fst st)\<lparr>rank_experience_score := s\<rparr>, snd st + s * rank_weights_experience))
      else st)"

definition rank_location ::
  "job \<Rightarrow> candidate_profile \<Rightarrow> rank_scores \<times> real \<Rightarrow> py_error + rank_scores \<times> real" where
  "rank_location j c st =
     (case profile_location c of
        Inl e \<Rightarrow> Inl e
      | Inr candidate_location \<Rightarrow>
          if truthy (location j) \<and> truthy candidate_location then
            (let s = calculate_location_match (unwrap (location j)) (unwrap candidate_location)
             in Inr ((fst st)\<lparr>rank_location_score := s\<rparr>, snd st + s * rank_weights_location))
          else Inr st)"

definition rank_candidate_scores :: "job \<Rightarrow> candidate_profile \<Rightarrow> py_error + rank_scores \<times> real" where
  "rank_candidate_scores j c = rank_location j c (rank_experience j c (rank_skills j c rank_init))"

fun rank_loop :: "job \<Rightarrow> real \<Rightarrow> candidate_profile list \<Rightarrow> py_error + rank_result list" where
  "rank_loop j min_score [] = Inr []"
| "rank_loop j min_score (c # cs) =
     (case rank_candidate_scores j c of
        Inl e \<Rightarrow> Inl e
      | Inr (sc, tot) \<Rightarrow>
          (case rank_loop j min_score cs of
             Inl e \<Rightarrow> Inl e
           | Inr ranked_results \<Rightarrow>
               Inr (if tot \<ge> min_score
                    then \<lparr>rank_candidate = c, rank_scores_of = sc, rank_total_score = tot\<rparr>
                         # ranked_results
                    else ranked_results)))"

text \<open>The body of the \<^verbatim>\<open>try\<close> block of \<^verbatim>\<open>rank_candidates_for_job\<close>.\<close>

definition rank_body :: "db \<Rightarrow> int \<Rightarrow> real \<Rightarrow> int \<Rightarrow> py_error + rank_result list" where
  "rank_body d jid min_score limit =
     (case find (\<lambda>j. job_id j = jid) (jobs d) of
        None \<Rightarrow> Inr []
      | Some j \<Rightarrow>
          if candidates d = [] then Inr []
          else (case rank_loop j min_score (candidates d) of
                  Inl e \<Rightarrow> Inl e
                | Inr ranked_results \<Rightarrow>
                    Inr (slice_to limit (sorted_reverse rank_total_score ranked_results))))"

text \<open>The \<^verbatim>\<open>except\<close> clause logs the exception and returns the empty list.\<close>

definition rank_candidates_for_job :: "db \<Rightarrow> int \<Rightarrow> real \<Rightarrow> int \<Rightarrow> rank_result list" where
  "rank_candidates_for_job d jid min_score limit =
     (case rank_body d jid min_score limit of Inl e \<Rightarrow> [] | Inr rs \<Rightarrow> rs)"

section \<open>Example data\<close>

text \<open>
  The search scenario: the query vector \<open>[1, 0, 0, 0]\<close>, a first candidate whose vector has
  cosine 9/10 to it and who has no location, and a second candidate with cosine 1/2, the
  query's location and the required years. The first candidate's experience field is a
  parameter.
\<close>

definition search_c1 :: "experience_field \<Rightarrow> candidate_profile" where
  "search_c1 e =
     \<lparr>cand_id = 1, parsed_resume = Some (InfoDict None),
      resume_vector = Some [9, 3, 3, 1], total_experience = e\<rparr>"

definition search_c2 :: candidate_profile where
  "search_c2 =
     \<lparr>cand_id = 2, parsed_resume = Some (InfoDict (Some ''Austin, TX'')),
      resume_vector = Some [1, 1, 1, 1], total_experience = ExpNum 5\<rparr>"

text \<open>
  The ranking scenario: a job requiring 5 years, candidate A with 5 years and candidate B
  with no experience data, both with the job's own vector.
\<close>

definition rank_job :: job where
  "rank_job = \<lparr>job_id = 1, location = None, jd_vector = Some [3, 4], required_experience = Some 5\<rparr>"

definition rank_a :: candidate_profile where
  "rank_a =
     \<lparr>cand_id = 1, parsed_resume = Some InfoAbsent,
      resume_vector = Some [3, 4], total_experience = ExpNum 5\<rparr>"

definition rank_b :: candidate_profile where
  "rank_b =
     \<lparr>cand_id = 2, parsed_resume = Some InfoAbsent,
      resume_vector = Some [3, 4], total_experience = ExpNull\<rparr>"

text \<open>A candidate whose vector points away from the query \<open>[1, 0]\<close>: cosine -3/5.\<close>

definition opposed :: candidate_profile where
  "opposed =
     \<lparr>cand_id = 1, parsed_resume = Some (InfoDict (Some ''Austin'')),
      resume_vector = Some [- 3, 4], total_experience = ExpNum 5\<rparr>"

text \<open>The two results of the search scenario when the first candidate is scored on skills only.\<close>

definition result_c1 :: search_result where
  "result_c1 =
     \<lparr>candidate = search_c1 (ExpStr []),
      scores = \<lparr>skills_score = 9 / 10, location_score = 0, experience_score = 0,
                total_score = 9 / 10\<rparr>\<rparr>"

definition result_c2 :: search_result where
  "result_c2 =
     \<lparr>candidate = search_c2,
      scores = \<lparr>skills_score = 1 / 2, location_score = 1, experience_score = 1,
                total_score = 7 / 10\<rparr>\<rparr>"

section \<open>The location match in the words of the specification\<close>

text \<open>
  Split on commas, trim and lowercase the segments; score a pair of segments 1 when they
  are equal, 0.9 when one is a substring of the other, and otherwise by the number of
  positions (from index 0) at which they carry the same character, divided by the length of
  the longer one; take the best score of each query segment and return the mean.
\<close>

text \<open>\<^verbatim>\<open>",".join(parts)\<close>, the inverse that characterises the split.\<close>

fun join_comma :: "string list \<Rightarrow> string" where
  "join_comma [] = []"
| "join_comma [p] = p"
| "join_comma (p # q # ps) = p @ CHR '','' # join_comma (q # ps)"

definition spec_segments :: "string \<Rightarrow> string list" where
  "spec_segments s = map (\<lambda>p. lower (strip p)) (split_comma s)"

definition spec_overlap :: "string \<Rightarrow> string \<Rightarrow> real" where
  "spec_overlap a b =
     real (length (filter (\<lambda>i. a ! i = b ! i) [0..<min (length a) (length b)]))
     / real (max (length a) (length b))"

definition spec_pair_score :: "string \<Rightarrow> string \<Rightarrow> real" where
  "spec_pair_score a b =
     (if a = b then 1 else if sublist a b \<or> sublist b a then 9 / 10 else spec_overlap a b)"

definition spec_location_match :: "string \<Rightarrow> string \<Rightarrow> real" where
  "spec_location_match q c =
     (\<Sum>a\<leftarrow>spec_segments q. Max (spec_pair_score a ` set (spec_segments c)))
     / real (length (spec_segments q))"

section \<open>Evaluation lemmas\<close>

lemma norm_3_4: "linalg_norm [3, 4] = 5"
  by (simp add: linalg_norm_def real_sqrt_unique)

lemma norm_ones: "linalg_norm [1, 1, 1, 1] = 2"
  by (simp add: linalg_norm_def real_sqrt_unique)

lemma norm_9_3_3_1: "linalg_norm [9, 3, 3, 1] = 10"
  by (simp add: linalg_norm_def real_sqrt_unique)

lemma norm_unit4: "linalg_norm [1, 0, 0, 0] = 1"
  by (simp add: linalg_norm_def)

lemma norm_m3_4: "linalg_norm [- 3, 4] = 5"
  by (simp add: linalg_norm_def real_sqrt_unique)

lemma norm_unit2: "linalg_norm [1, 0] = 1"
  by (simp add: linalg_norm_def)

lemma skills_c1: "calculate_skills_similarity [Some [1, 0, 0, 0]] [9, 3, 3, 1] = 9 / 10"
  by (simp add: calculate_skills_similarity_def np_dot_def norm_9_3_3_1 norm_unit4 py_max_def)

lemma skills_c2: "calculate_skills_similarity [Some [1, 0, 0, 0]] [1, 1, 1, 1] = 1 / 2"
  by (simp add: calculate_skills_similarity_def np_dot_def norm_ones norm_unit4 py_max_def)

lemma skills_opposed: "calculate_skills_similarity [Some [1, 0]] [- 3, 4] = - 3 / 5"
  by (simp add: calculate_skills_similarity_def np_dot_def norm_m3_4 norm_unit2 py_max_def)

lemma skills_match_same: "calculate_skills_match [3, 4] [3, 4] = 1"
  by (simp add: calculate_skills_match_def np_dot_def norm_3_4)

lemma location_austin_tx: "calculate_location_match ''Austin, TX'' ''Austin, TX'' = 1"
  by code_simp

lemma location_austin: "calculate_location_match ''Austin'' ''Austin'' = 1"
  by code_simp

lemma location_austn: "calculate_location_match ''Austin'' ''Austn'' = 2 / 3"
  by code_simp

lemmas search_defs =
  candidate_scores_def apply_skills_def apply_location_def apply_experience_def init_state_def
  final_result_def truthy_def unwrap_def truthy_num_def profile_location_def or_zero_def
  weights_skills_def weights_location_def weights_experience_def search_candidates_def
  sorted_reverse_def slice_to_def Let_def

lemmas rank_defs =
  rank_candidate_scores_def rank_skills_def rank_experience_def rank_location_def rank_init_def
  truthy_def unwrap_def truthy_num_def truthy_exp_def profile_location_def
  rank_weights_skills_def rank_weights_experience_def rank_weights_location_def
  rank_body_def rank_candidates_for_job_def sorted_reverse_def slice_to_def Let_def

lemma scenario_empty_experience:
  "search_candidates \<lparr>jobs = [], candidates = [search_c1 (ExpStr []), search_c2]\<rparr>
      (Some [Some [1, 0, 0, 0]]) (Some ''Austin, TX'') (Some 5) (1 / 2) 10 =
     Inr [result_c1, result_c2]"
  by (simp add: search_defs search_c1_def search_c2_def skills_c1 skills_c2 location_austin_tx
      result_c1_def result_c2_def)

lemma opposed_search:
  "search_candidates \<lparr>jobs = [], candidates = [opposed]\<rparr>
      (Some [Some [1, 0]]) (Some ''Austin'') (Some 5) 0 10 =
     Inr [\<lparr>candidate = opposed,
           scores = \<lparr>skills_score = - 3 / 5, location_score = 1, experience_score = 1,
                     total_score = 1 / 25\<rparr>\<rparr>]"
  by (simp add: search_defs opposed_def skills_opposed location_austin)

lemma rank_scenario:
  "rank_candidate_scores rank_job rank_a =
       Inr (\<lparr>rank_skills_score = 1, rank_experience_score = 1, rank_location_score = 0\<rparr>, 7 / 10)
   \<and> rank_candidate_scores rank_job rank_b =
       Inr (\<lparr>rank_skills_score = 1, rank_experience_score = 0, rank_location_score = 0\<rparr>, 4 / 10)
   \<and> rank_candidates_for_job \<lparr>jobs = [rank_job], candidates = [rank_a, rank_b]\<rparr> 1 (1 / 2) 10 =
       [\<lparr>rank_candidate = rank_a,
         rank_scores_of =
           \<lparr>rank_skills_score = 1, rank_experience_score = 1, rank_location_score = 0\<rparr>,
         rank_total_score = 7 / 10\<rparr>]"
  by (simp add: rank_defs rank_job_def rank_a_def rank_b_def skills_match_same)

section \<open>Bounds of the sub-scores\<close>

lemma py_max_bounds: "lo \<le> s \<Longrightarrow> s \<le> hi \<Longrightarrow> \<forall>x \<in> set ss. lo \<le> x \<and> x \<le> hi \<Longrightarrow> lo \<le> py_max s ss \<and> py_max s ss \<le> hi"
  unfolding py_max_def by (induction ss arbitrary: s) auto

lemma skills_match_bounds: "0 \<le> calculate_skills_match u v \<and> calculate_skills_match u v \<le> 1"
  by (simp add: calculate_skills_match_def Let_def split: sum.splits)

lemma part_similarity_bounds: "0 \<le> part_similarity a b \<and> part_similarity a b \<le> 1"
proof -
  have "length (filter P (zip x y)) \<le> length y" for P and x y :: string
    by (rule order_trans[OF length_filter_le]) simp
  moreover have "length (filter P (zip x y)) \<le> length x" for P and x y :: string
    by (rule order_trans[OF length_filter_le]) simp
  ultimately show ?thesis
    by (auto simp: part_similarity_def Let_def divide_le_eq)
qed

lemma split_comma_nonempty: "split_comma s \<noteq> []"
  by (induction s) (auto split: list.splits)

lemma sum_list_bounds: "\<forall>x \<in> set xs. 0 \<le> x \<and> x \<le> (1::real) \<Longrightarrow> 0 \<le> sum_list xs \<and> sum_list xs \<le> real (length xs)"
  by (induction xs) auto

lemma location_match_bounds: "0 \<le> calculate_location_match q c \<and> calculate_location_match q c \<le> 1"
proof (cases "q = [] \<or> c = []")
  case True then show ?thesis by (auto simp: calculate_location_match_def)
next
  case False
  define qp where "qp = map (\<lambda>q. lower (strip q)) (split_comma q)"
  define cp where "cp = map (\<lambda>c. lower (strip c)) (split_comma c)"
  define ms where "ms = map (\<lambda>query_part. case map (part_similarity query_part) cp of [] \<Rightarrow> 0 | s # ss \<Rightarrow> py_max s ss) qp"
  have eq: "calculate_location_match q c = sum_list ms / real (length qp)"
    using False by (simp add: calculate_location_match_def Let_def qp_def cp_def ms_def)
  have one: "0 \<le> (case map (part_similarity a) cp of [] \<Rightarrow> 0 | s # ss \<Rightarrow> py_max s ss) 
         \<and> (case map (part_similarity a) cp of [] \<Rightarrow> 0 | s # ss \<Rightarrow> py_max s ss) \<le> 1" for a
  proof (cases cp)
    case Nil then show ?thesis by simp
  next
    case (Cons b bs)
    show ?thesis using py_max_bounds[of 0 "part_similarity a b" 1 "map (part_similarity a) bs"] part_similarity_bounds
      by (simp add: Cons)
  qed
  have "\<forall>x \<in> set ms. 0 \<le> x \<and> x \<le> 1" unfolding ms_def using one by auto
  from sum_list_bounds[OF this] have "0 \<le> sum_list ms" "sum_list ms \<le> real (length qp)"
    by (simp_all add: ms_def)
  moreover have "0 < length qp" using split_comma_nonempty by (simp add: qp_def)
  ultimately show ?thesis unfolding eq by (simp add: divide_le_eq)
qed

lemma experience_bounds: "0 \<le> calculate_experience_match e r \<and> calculate_experience_match e r \<le> 1"
  "0 \<le> rank_calculate_experience_match e r \<and> rank_calculate_experience_match e r \<le> 1"
  by (cases e; cases r; simp add: Let_def)+

section \<open>Experience-gap score\<close>



section \<open>Zero-valued experience\<close>

text \<open>
  C10. A required experience of 0.0 is treated as absent. In search the experience step
  leaves the candidate's state unchanged (no score, no weight), so the candidate's state
  and the whole search are those of a query without the experience criterion. In ranking
  a job requirement of 0.0, or a candidate's total experience of 0.0, makes the
  experience step leave the scores and the running total unchanged.
\<close>

theorem zero_experience_is_absent:
  "apply_experience (Some 0) c st = st
   \<and> candidate_scores sv loc (Some 0) c = candidate_scores sv loc None c
   \<and> search_candidates d sv loc (Some 0) ms limit = search_candidates d sv loc None ms limit
   \<and> rank_experience (j\<lparr>required_experience := Some 0\<rparr>) c rst = rst
   \<and> rank_experience j (c\<lparr>total_experience := ExpNum 0\<rparr>) rst = rst
   \<and> rank_experience_score
         (fst (rank_experience (j\<lparr>required_experience := Some 0\<rparr>) c rank_init)) = 0
   \<and> rank_experience_score
         (fst (rank_experience j (c\<lparr>total_experience := ExpNum 0\<rparr>) rank_init)) = 0"
proof -
  have a: "apply_experience (Some 0) c' st' = st'"
    "apply_experience None c' st' = apply_experience (Some 0) c' st'" for c' st'
    by (simp_all add: apply_experience_def truthy_num_def)
  have b: "candidate_scores sv loc (Some 0) c' = candidate_scores sv loc None c'" for c'
    by (simp add: candidate_scores_def a split: sum.splits)
  have l: "search_loop sv loc (Some 0) ms cs = search_loop sv loc None ms cs" for cs
    by (induction cs) (simp_all add: b split: sum.splits)
  show ?thesis
    by (simp add: a b l search_candidates_def rank_experience_def truthy_num_def truthy_exp_def
        rank_init_def)
qed

theorem zero_experience_is_absent_witness:
  "candidate_scores (Some [Some [1, 0, 0, 0]]) None (Some 0) search_c2 =
     Inr \<lparr>st_skills_score = Some (1 / 2), st_location_score = None,
          st_experience_score = None, st_total_score = 3 / 10, st_total_weight = 6 / 10\<rparr>"
  using zero_experience_is_absent [of search_c2 init_state "Some [Some [1, 0, 0, 0]]" None]
  by (simp add: search_defs search_c2_def skills_c2)

section \<open>Ranking without a job or without candidates\<close>

text \<open>
  C8. When no job has the requested identifier, the body of the ranking operation
  returns the empty list without raising, and so does the operation. The same holds when
  the candidate table is empty, whether or not the job exists.
\<close>

theorem rank_missing_job_or_no_candidates:
  "(jid \<notin> job_id ` set (jobs d) \<longrightarrow>
       rank_body d jid ms limit = Inr [] \<and> rank_candidates_for_job d jid ms limit = [])
   \<and> (candidates d = [] \<longrightarrow>
       rank_body d jid ms limit = Inr [] \<and> rank_candidates_for_job d jid ms limit = [])"
proof -
  have "find (\<lambda>j. job_id j = jid) (jobs d) = None" if "jid \<notin> job_id ` set (jobs d)"
    using that by (auto simp: find_None_iff)
  then show ?thesis
    by (auto simp: rank_body_def rank_candidates_for_job_def split: option.splits)
qed

theorem rank_missing_job_or_no_candidates_witness:
  "(7::int) \<notin> job_id ` set (jobs \<lparr>jobs = [rank_job], candidates = [rank_a]\<rparr>)
   \<and> rank_body \<lparr>jobs = [rank_job], candidates = [rank_a]\<rparr> 7 (1 / 2) 10 = Inr []
   \<and> candidates \<lparr>jobs = [rank_job], candidates = []\<rparr> = []
   \<and> rank_candidates_for_job \<lparr>jobs = [rank_job], candidates = []\<rparr> 1 (1 / 2) 10 = []"
  using rank_missing_job_or_no_candidates
          [of 7 "\<lparr>jobs = [rank_job], candidates = [rank_a]\<rparr>" "1 / 2" 10]
        rank_missing_job_or_no_candidates
          [of 1 "\<lparr>jobs = [rank_job], candidates = []\<rparr>" "1 / 2" 10]
  by (simp add: rank_job_def)

section \<open>Search summary\<close>

text \<open>
  C9. The summary of a non-empty result list gives its length, the mean, the maximum and
  the minimum of the total scores, and counts the totals that are at least 0.8
  (excellent), in [0.6, 0.8) (good) and in [0.5, 0.6) (fair). The summary of the empty
  list has count 0, the three statistics 0 and the three buckets 0.
\<close>

theorem search_summary_statistics:
  "get_search_summary [] =
     \<lparr>summary_count = 0, avg_score = 0, max_score = 0, summary_min_score = 0,
      distribution = \<lparr>excellent = 0, good = 0, fair = 0\<rparr>\<rparr>
   \<and> (rs \<noteq> [] \<longrightarrow>
        summary_count (get_search_summary rs) = length rs
      \<and> avg_score (get_search_summary rs) = (\<Sum>r\<leftarrow>rs. total_score (scores r)) / real (length rs)
      \<and> max_score (get_search_summary rs) = Max ((\<lambda>r. total_score (scores r)) ` set rs)
      \<and> summary_min_score (get_search_summary rs) = Min ((\<lambda>r. total_score (scores r)) ` set rs)
      \<and> excellent (distribution (get_search_summary rs)) =
          length (filter (\<lambda>r. total_score (scores r) \<ge> 0.8) rs)
      \<and> good (distribution (get_search_summary rs)) =
          length (filter (\<lambda>r. 0.6 \<le> total_score (scores r) \<and> total_score (scores r) < 0.8) rs)
      \<and> fair (distribution (get_search_summary rs)) =
          length (filter (\<lambda>r. 0.5 \<le> total_score (scores r) \<and> total_score (scores r) < 0.6) rs))"
proof (intro conjI impI)
  show "get_search_summary [] =
     \<lparr>summary_count = 0, avg_score = 0, max_score = 0, summary_min_score = 0,
      distribution = \<lparr>excellent = 0, good = 0, fair = 0\<rparr>\<rparr>"
    by (simp add: get_search_summary_def)
next
  assume ne: "rs \<noteq> []"
  then obtain r rest where rs: "rs = r # rest" by (cases rs) auto
  define f where "f = (\<lambda>r::search_result. total_score (scores r))"
  have fm: "length (filter P (map g rs)) = length (filter (\<lambda>r. P (g r)) rs)"
    for P and g :: "search_result \<Rightarrow> real"
    by (simp add: filter_map o_def)
  show "summary_count (get_search_summary rs) = length rs"
    using ne by (simp add: get_search_summary_def Let_def)
  show "avg_score (get_search_summary rs) = (\<Sum>r\<leftarrow>rs. total_score (scores r)) / real (length rs)"
    by (simp add: rs get_search_summary_def Let_def)
  have "max_score (get_search_summary rs) = fold max (map f rest) (f r)"
    by (simp add: rs get_search_summary_def Let_def f_def)
  also have "\<dots> = Max (set (f r # map f rest))" by (rule Max.set_eq_fold[symmetric])
  also have "set (f r # map f rest) = f ` set rs" by (simp add: rs)
  finally show "max_score (get_search_summary rs) = Max ((\<lambda>r. total_score (scores r)) ` set rs)"
    by (simp only: f_def)
  have "summary_min_score (get_search_summary rs) = fold min (map f rest) (f r)"
    by (simp add: rs get_search_summary_def Let_def f_def)
  also have "\<dots> = Min (set (f r # map f rest))" by (rule Min.set_eq_fold[symmetric])
  also have "set (f r # map f rest) = f ` set rs" by (simp add: rs)
  finally show "summary_min_score (get_search_summary rs) = Min ((\<lambda>r. total_score (scores r)) ` set rs)"
    by (simp only: f_def)
  have "excellent (distribution (get_search_summary rs)) = length (filter (\<lambda>s. s \<ge> 8 / 10) (map f rs))"
    using ne by (simp only: get_search_summary_def Let_def f_def if_False search_summary.select_convs score_distribution.select_convs)
  then show "excellent (distribution (get_search_summary rs)) =
          length (filter (\<lambda>r. total_score (scores r) \<ge> 0.8) rs)"
    by (simp only: fm f_def)
  have "good (distribution (get_search_summary rs)) = length (filter (\<lambda>s. 6 / 10 \<le> s \<and> s < 8 / 10) (map f rs))"
    using ne by (simp only: get_search_summary_def Let_def f_def if_False search_summary.select_convs score_distribution.select_convs)
  then show "good (distribution (get_search_summary rs)) =
          length (filter (\<lambda>r. 0.6 \<le> total_score (scores r) \<and> total_score (scores r) < 0.8) rs)"
    by (simp only: fm f_def)
  have "fair (distribution (get_search_summary rs)) = length (filter (\<lambda>s. 5 / 10 \<le> s \<and> s < 6 / 10) (map f rs))"
    using ne by (simp only: get_search_summary_def Let_def f_def if_False search_summary.select_convs score_distribution.select_convs)
  then show "fair (distribution (get_search_summary rs)) =
          length (filter (\<lambda>r. 0.5 \<le> total_score (scores r) \<and> total_score (scores r) < 0.6) rs)"
    by (simp only: fm f_def)
qed

theorem search_summary_statistics_witness:
  "[result_c1, result_c2] \<noteq> []
   \<and> summary_count (get_search_summary [result_c1, result_c2]) = 2
   \<and> avg_score (get_search_summary [result_c1, result_c2]) = 8 / 10
   \<and> excellent (distribution (get_search_summary [result_c1, result_c2])) = 1
   \<and> good (distribution (get_search_summary [result_c1, result_c2])) = 1
   \<and> fair (distribution (get_search_summary [result_c1, result_c2])) = 0"
  using search_summary_statistics [of "[result_c1, result_c2]"]
  by (simp add: result_c1_def result_c2_def)

section \<open>Location fuzzy match\<close>

lemma str_in_sublist: "str_in a b \<longleftrightarrow> sublist a b"
  by (induction b) (simp_all add: sublist_Cons_right)

lemma zip_matches:
  "length (filter (\<lambda>(a, b). a = b) (zip x y)) =
   length (filter (\<lambda>i. x ! i = y ! i) [0..<min (length x) (length y)])"
proof -
  have "zip x y = map (\<lambda>i. (x ! i, y ! i)) [0..<min (length x) (length y)]"
    by (rule nth_equalityI) auto
  then have "filter (\<lambda>(a, b). a = b) (zip x y) =
      map (\<lambda>i. (x ! i, y ! i)) (filter (\<lambda>i. x ! i = y ! i) [0..<min (length x) (length y)])"
    by (simp add: filter_map o_def)
  then show ?thesis by simp
qed

lemma part_similarity_spec: "part_similarity a b = spec_pair_score a b"
proof -
  have sym: "(\<lambda>i. b ! i = a ! i) = (\<lambda>i. a ! i = b ! i)" by (auto simp: fun_eq_iff)
  show ?thesis
    by (auto simp: part_similarity_def spec_pair_score_def spec_overlap_def str_in_sublist
        zip_matches sym min.commute max_def min_def)
qed

lemma best_of_parts:
  "cp \<noteq> [] \<Longrightarrow> (case map f cp of [] \<Rightarrow> 0 | s # ss \<Rightarrow> py_max s ss) = Max (f ` set cp)"
proof (cases cp)
  case Nil then show "cp \<noteq> [] \<Longrightarrow> ?thesis" by simp
next
  case (Cons b bs)
  have "py_max (f b) (map f bs) = Max (set (f b # map f bs))"
    unfolding py_max_def by (rule Max.set_eq_fold[symmetric])
  then show ?thesis by (simp add: Cons)
qed

lemma location_match_spec:
  assumes "q \<noteq> []" "c \<noteq> []"
  shows "calculate_location_match q c = spec_location_match q c"
proof -
  have ne: "spec_segments c \<noteq> []" by (simp add: spec_segments_def split_comma_nonempty)
  have "(\<lambda>query_part. case map (part_similarity query_part) (spec_segments c) of [] \<Rightarrow> 0 | s # ss \<Rightarrow> py_max s ss)
      = (\<lambda>a. Max (spec_pair_score a ` set (spec_segments c)))"
    using best_of_parts[OF ne] by (simp add: fun_eq_iff part_similarity_spec[abs_def])
  then show ?thesis using assms
    by (simp add: calculate_location_match_def spec_location_match_def Let_def spec_segments_def[symmetric])
qed

lemma join_comma_Cons: "join_comma ((c # p) # ps) = c # join_comma (p # ps)"
  by (cases ps) simp_all

lemma join_split: "join_comma (split_comma s) = s"
proof (induction s)
  case Nil then show ?case by simp
next
  case (Cons c cs)
  obtain p ps where sp: "split_comma cs = p # ps"
    using split_comma_nonempty[of cs] by (cases "split_comma cs") auto
  show ?case using Cons sp by (simp add: join_comma_Cons)
qed

lemma split_no_comma: "p \<in> set (split_comma s) \<Longrightarrow> CHR '','' \<notin> set p"
proof (induction s arbitrary: p)
  case Nil then show ?case by simp
next
  case (Cons c cs)
  obtain q qs where sp: "split_comma cs = q # qs"
    using split_comma_nonempty[of cs] by (cases "split_comma cs") auto
  have "CHR '','' \<notin> set q" "\<And>x. x \<in> set qs \<Longrightarrow> CHR '','' \<notin> set x"
    using Cons.IH sp by auto
  then show ?case using Cons.prems sp by (auto split: if_splits)
qed

lemma strip_decomp:
  "\<exists>pre post. s = pre @ strip s @ post \<and> (\<forall>c\<in>set pre. is_space c) \<and> (\<forall>c\<in>set post. is_space c)"
proof -
  define t where "t = dropWhile is_space s"
  define w where "w = takeWhile is_space (rev t)"
  define u where "u = dropWhile is_space (rev t)"
  have s: "s = takeWhile is_space s @ t" by (simp add: t_def)
  have "rev t = w @ u" by (simp add: w_def u_def)
  then have "rev (rev t) = rev (w @ u)" by (rule arg_cong)
  then have t: "t = rev u @ rev w" by simp
  have st: "strip s = rev u" by (simp add: strip_def t_def u_def)
  have a: "\<forall>c\<in>set (takeWhile is_space s). is_space c" by (auto dest: set_takeWhileD)
  have b: "\<forall>c\<in>set (rev w). is_space c" unfolding w_def by (auto dest: set_takeWhileD)
  from s t st have "s = takeWhile is_space s @ strip s @ rev w" by simp
  with a b show ?thesis by blast
qed

lemma strip_ends:
  assumes "strip s \<noteq> []"
  shows "\<not> is_space (hd (strip s)) \<and> \<not> is_space (last (strip s))"
proof -
  define t where "t = dropWhile is_space s"
  define u where "u = dropWhile is_space (rev t)"
  have st: "strip s = rev u" by (simp add: strip_def t_def u_def)
  with assms have u: "u \<noteq> []" by simp
  then have tne: "t \<noteq> []" by (auto simp: u_def)
  have "\<not> is_space (hd u)" using u unfolding u_def by (rule hd_dropWhile)
  then have l: "\<not> is_space (last (strip s))" using u by (simp add: st last_rev)
  have "\<exists>v. rev t = v @ u" unfolding u_def by (metis takeWhile_dropWhile_id)
  then obtain v where v: "rev t = v @ u" by blast
  then have "last (rev t) = last u" using u by simp
  then have "hd t = last u" using tne by (simp add: last_rev)
  moreover have "\<not> is_space (hd t)" using tne unfolding t_def by (rule hd_dropWhile)
  ultimately have "\<not> is_space (hd (strip s))" using u by (simp add: st hd_rev)
  with l show ?thesis by simp
qed

lemma space_table:
  "filter is_space (map char_of [0..<128::nat]) =
     map char_of [9, 10, 11, 12, 13, 28, 29, 30, 31, 32 :: nat]"
  by code_simp

lemma lower_table:
  "map lower_char (map char_of [0..<128::nat]) =
     map char_of ([0..<65] @ [97..<123] @ [91..<128] :: nat list)"
  by code_simp

lemma location_mixed_case_spaces: "calculate_location_match ''AUSTIN ,tx'' ''austin, TX'' = 1"
  by code_simp

lemma location_second_segment: "calculate_location_match ''Austin, TX'' ''Austin'' = 1 / 2"
  by code_simp

lemma location_whitespace:
  "calculate_location_match
     ([CHR '' '', CHR 0x09] @ ''Austin'' @ [CHR 0x0A, CHR '' '']) ''Austin'' = 1"
  by code_simp

lemma location_upper: "calculate_location_match ''AUSTIN'' ''austin'' = 1"
  by code_simp

lemma strip_padded: "strip '' Austin '' = ''Austin''"
  by code_simp

text \<open>
  C5. For non-empty strings the location match of the code is the location match in the
  words of the specification: split on commas, trim and lowercase, score each pair of
  segments 1 when equal, 0.9 when one contains the other and otherwise by the positional
  overlap divided by the longer length, take the maximum for each query segment and
  return the mean. It is 0 when either string is empty. The three steps of the
  segmentation are what the words say: joining the segments with commas gives the string
  back and no segment holds a comma; a trimmed segment is the segment without a prefix
  and a suffix of whitespace, and neither starts nor ends with whitespace; the whitespace
  characters of ASCII are 9 to 13, 28 to 31 and 32; lowercasing maps A to Z onto a to z,
  character by character, and leaves every other ASCII character alone. So
  \<open>location_match("Austin, TX", "Austin, TX") = 1\<close>, \<open>location_match("", "Austin") = 0\<close>
  and \<open>location_match("Austin", "Austn")\<close> is strictly between 0 and 1; and case, padding
  and commas matter as said: \<open>location_match("AUSTIN ,tx", "austin, TX") = 1\<close>,
  \<open>location_match("Austin, TX", "Austin") = 1/2\<close>,
  \<open>location_match(" \tAustin\n ", "Austin") = 1\<close> and
  \<open>location_match("AUSTIN", "austin") = 1\<close>.
\<close>

theorem location_match_as_specified:
  "(q \<noteq> [] \<and> c \<noteq> [] \<longrightarrow> calculate_location_match q c = spec_location_match q c)
   \<and> (q = [] \<or> c = [] \<longrightarrow> calculate_location_match q c = 0)
   \<and> (strip s \<noteq> [] \<longrightarrow> \<not> is_space (hd (strip s)) \<and> \<not> is_space (last (strip s)))
   \<and> part_similarity a b = spec_pair_score a b
   \<and> join_comma (split_comma s) = s
   \<and> (\<forall>p\<in>set (split_comma s). CHR '','' \<notin> set p)
   \<and> (\<exists>pre post. s = pre @ strip s @ post
         \<and> (\<forall>x\<in>set pre. is_space x) \<and> (\<forall>x\<in>set post. is_space x))
   \<and> filter is_space (map char_of [0..<128::nat]) =
       map char_of [9, 10, 11, 12, 13, 28, 29, 30, 31, 32 :: nat]
   \<and> lower s = map lower_char s
   \<and> map lower_char (map char_of [0..<128::nat]) =
       map char_of ([0..<65] @ [97..<123] @ [91..<128] :: nat list)
   \<and> calculate_location_match ''Austin, TX'' ''Austin, TX'' = 1
   \<and> calculate_location_match [] ''Austin'' = 0
   \<and> 0 < calculate_location_match ''Austin'' ''Austn''
   \<and> calculate_location_match ''Austin'' ''Austn'' < 1
   \<and> calculate_location_match ''AUSTIN ,tx'' ''austin, TX'' = 1
   \<and> calculate_location_match ''Austin, TX'' ''Austin'' = 1 / 2
   \<and> calculate_location_match
         ([CHR '' '', CHR 0x09] @ ''Austin'' @ [CHR 0x0A, CHR '' '']) ''Austin'' = 1
   \<and> calculate_location_match ''AUSTIN'' ''austin'' = 1"
proof (intro conjI impI ballI)
  show "calculate_location_match q c = spec_location_match q c" if "q \<noteq> [] \<and> c \<noteq> []"
    using that by (simp add: location_match_spec)
  show "calculate_location_match q c = 0" if "q = [] \<or> c = []"
    using that by (auto simp: calculate_location_match_def)
  show "\<not> is_space (hd (strip s))" if "strip s \<noteq> []"
    using strip_ends[OF that] by simp
  show "\<not> is_space (last (strip s))" if "strip s \<noteq> []"
    using strip_ends[OF that] by simp
  show "part_similarity a b = spec_pair_score a b"
    by (rule part_similarity_spec)
  show "join_comma (split_comma s) = s"
    by (rule join_split)
  show "CHR '','' \<notin> set p" if "p \<in> set (split_comma s)" for p
    using that by (rule split_no_comma)
  show "\<exists>pre post. s = pre @ strip s @ post
         \<and> (\<forall>x\<in>set pre. is_space x) \<and> (\<forall>x\<in>set post. is_space x)"
    by (rule strip_decomp)
  show "filter is_space (map char_of [0..<128::nat]) =
       map char_of [9, 10, 11, 12, 13, 28, 29, 30, 31, 32 :: nat]"
    by (rule space_table)
  show "lower s = map lower_char s"
    by (rule lower_def)
  show "map lower_char (map char_of [0..<128::nat]) =
       map char_of ([0..<65] @ [97..<123] @ [91..<128] :: nat list)"
    by (rule lower_table)
  show "calculate_location_match ''Austin, TX'' ''Austin, TX'' = 1"
    by (rule location_austin_tx)
  show "calculate_location_match [] ''Austin'' = 0"
    by (simp add: calculate_location_match_def)
  show "0 < calculate_location_match ''Austin'' ''Austn''"
    by (simp add: location_austn)
  show "calculate_location_match ''Austin'' ''Austn'' < 1"
    by (simp add: location_austn)
  show "calculate_location_match ''AUSTIN ,tx'' ''austin, TX'' = 1"
    by (rule location_mixed_case_spaces)
  show "calculate_location_match ''Austin, TX'' ''Austin'' = 1 / 2"
    by (rule location_second_segment)
  show "calculate_location_match
         ([CHR '' '', CHR 0x09] @ ''Austin'' @ [CHR 0x0A, CHR '' '']) ''Austin'' = 1"
    by (rule location_whitespace)
  show "calculate_location_match ''AUSTIN'' ''austin'' = 1"
    by (rule location_upper)
qed

theorem location_match_as_specified_witness:
  "''Austin'' \<noteq> [] \<and> ''Austn'' \<noteq> []
   \<and> calculate_location_match ''Austin'' ''Austn'' = spec_location_match ''Austin'' ''Austn''
   \<and> spec_location_match ''Austin'' ''Austn'' = 2 / 3
   \<and> strip '' Austin '' \<noteq> []
   \<and> \<not> is_space (hd (strip '' Austin ''))
   \<and> \<not> is_space (last (strip '' Austin ''))"
proof -
  note t = location_match_as_specified
             [where q = "''Austin''" and c = "''Austn''" and s = "'' Austin ''"]
  have ne: "''Austin'' \<noteq> [] \<and> ''Austn'' \<noteq> []" by simp
  from t [THEN conjunct1] ne
  have a: "calculate_location_match ''Austin'' ''Austn'' = spec_location_match ''Austin'' ''Austn''"
    by (rule mp)
  have sne: "strip '' Austin '' \<noteq> []" by (simp add: strip_padded)
  from t [THEN conjunct2, THEN conjunct2, THEN conjunct1] sne
  have b: "\<not> is_space (hd (strip '' Austin '')) \<and> \<not> is_space (last (strip '' Austin ''))"
    by (rule mp)
  from a location_austn have "spec_location_match ''Austin'' ''Austn'' = 2 / 3" by simp
  with ne a sne b show ?thesis by blast
qed

section \<open>Ranking: the total score\<close>



section \<open>The loops over the candidates\<close>

lemma final_result_Some:
  "final_result ms c st = Some r \<Longrightarrow>
     candidate r = c \<and> ms \<le> total_score (scores r) \<and> 0 < st_total_weight st
     \<and> total_score (scores r) = st_total_score st / st_total_weight st
     \<and> skills_score (scores r) = or_zero (st_skills_score st)
     \<and> location_score (scores r) = or_zero (st_location_score st)
     \<and> experience_score (scores r) = or_zero (st_experience_score st)"
  by (auto simp: final_result_def Let_def split: if_splits)

lemma search_loop_elems:
  "search_loop sv loc req ms cs = Inr kept \<Longrightarrow> r \<in> set kept \<Longrightarrow>
     \<exists>c st. c \<in> set cs \<and> candidate_scores sv loc req c = Inr st \<and> final_result ms c st = Some r"
proof (induction cs arbitrary: kept)
  case Nil then show ?case by simp
next
  case (Cons c cs)
  from Cons.prems(1) obtain st rest where st: "candidate_scores sv loc req c = Inr st"
    and rest: "search_loop sv loc req ms cs = Inr rest"
    and kept: "kept = (case final_result ms c st of None \<Rightarrow> rest | Some x \<Rightarrow> x # rest)"
    by (auto split: sum.splits)
  show ?case
  proof (cases "r \<in> set rest")
    case True
    from Cons.IH[OF rest True] show ?thesis by auto
  next
    case False
    with Cons.prems(2) kept have "final_result ms c st = Some r" by (auto split: option.splits)
    with st show ?thesis by auto
  qed
qed

lemma search_loop_subseq:
  "search_loop sv loc req ms cs = Inr kept \<Longrightarrow> subseq (map candidate kept) cs"
proof (induction cs arbitrary: kept)
  case Nil then show ?case by simp
next
  case (Cons c cs)
  from Cons.prems(1) obtain st rest where st: "candidate_scores sv loc req c = Inr st"
    and rest: "search_loop sv loc req ms cs = Inr rest"
    and kept: "kept = (case final_result ms c st of None \<Rightarrow> rest | Some x \<Rightarrow> x # rest)"
    by (auto split: sum.splits)
  from Cons.IH[OF rest] have s: "subseq (map candidate rest) cs" .
  show ?case
  proof (cases "final_result ms c st")
    case None with kept s show ?thesis by auto
  next
    case (Some x)
    with final_result_Some[OF Some] kept s show ?thesis by simp
  qed
qed

lemma rank_loop_elems:
  "rank_loop j ms cs = Inr kept \<Longrightarrow> r \<in> set kept \<Longrightarrow>
     \<exists>c sc tot. c \<in> set cs \<and> rank_candidate_scores j c = Inr (sc, tot) \<and> ms \<le> tot
        \<and> r = \<lparr>rank_candidate = c, rank_scores_of = sc, rank_total_score = tot\<rparr>"
proof (induction cs arbitrary: kept)
  case Nil then show ?case by simp
next
  case (Cons c cs)
  from Cons.prems(1) obtain sc tot rest where st: "rank_candidate_scores j c = Inr (sc, tot)"
    and rest: "rank_loop j ms cs = Inr rest"
    and kept: "kept = (if tot \<ge> ms then \<lparr>rank_candidate = c, rank_scores_of = sc, rank_total_score = tot\<rparr> # rest else rest)"
    by (auto split: sum.splits prod.splits)
  show ?case
  proof (cases "r \<in> set rest")
    case True
    from Cons.IH[OF rest True] show ?thesis by auto
  next
    case False
    with Cons.prems(2) kept have "ms \<le> tot" "r = \<lparr>rank_candidate = c, rank_scores_of = sc, rank_total_score = tot\<rparr>" 
      by (auto split: if_splits)
    with st show ?thesis by auto
  qed
qed

lemma rank_loop_subseq:
  "rank_loop j ms cs = Inr kept \<Longrightarrow> subseq (map rank_candidate kept) cs"
proof (induction cs arbitrary: kept)
  case Nil then show ?case by simp
next
  case (Cons c cs)
  from Cons.prems(1) obtain sc tot rest where st: "rank_candidate_scores j c = Inr (sc, tot)"
    and rest: "rank_loop j ms cs = Inr rest"
    and kept: "kept = (if tot \<ge> ms then \<lparr>rank_candidate = c, rank_scores_of = sc, rank_total_score = tot\<rparr> # rest else rest)"
    by (auto split: sum.splits prod.splits)
  from Cons.IH[OF rest] kept show ?case by auto
qed

lemma zero_weight_excluded: "st_total_weight st = 0 \<Longrightarrow> final_result ms c st = None"
  by (simp add: final_result_def)

section \<open>Sorting and truncation\<close>

lemma slice_to_take: "\<exists>n. slice_to limit xs = take n xs \<and> (0 \<le> limit \<longrightarrow> n = nat limit) \<and> (limit < 0 \<longrightarrow> n = length xs - nat (- limit))"
  by (simp add: slice_to_def)

lemma selection:
  fixes k :: "'a \<Rightarrow> real" and limit :: int and kept :: "'a list"
  defines "out \<equiv> slice_to limit (sorted_reverse k kept)"
  shows "sorted_wrt (\<lambda>a b. k b \<le> k a) out" (is ?A)
    and "0 \<le> limit \<Longrightarrow> int (length out) \<le> limit" (is "_ \<Longrightarrow> ?B")
    and "limit < 0 \<Longrightarrow> length out = length kept - nat (- limit)" (is "_ \<Longrightarrow> ?B'")
    and "\<exists>dropped. mset out + mset dropped = mset kept \<and> (\<forall>a\<in>set out. \<forall>b\<in>set dropped. k b \<le> k a)" (is ?C)
    and "prefix (filter (\<lambda>r. k r = v) out) (filter (\<lambda>r. k r = v) kept)" (is ?D)
    and "set out \<subseteq> set kept" (is ?E)
proof -
  define s where "s = sorted_reverse k kept"
  obtain n where n: "out = take n s" "0 \<le> limit \<longrightarrow> n = nat limit" "limit < 0 \<longrightarrow> n = length s - nat (- limit)"
    using slice_to_take[of limit s] unfolding out_def s_def by blast
  have srt: "sorted_wrt (\<lambda>a b. k b \<le> k a) s"
    using sorted_sort_key[of "\<lambda>x. - k x" kept] by (simp add: s_def sorted_reverse_def sorted_map)
  have ms: "mset s = mset kept" by (simp add: s_def sorted_reverse_def)
  have len: "length s = length kept" by (simp add: s_def sorted_reverse_def)
  show ?A unfolding n(1) using srt by (rule sorted_wrt_take)
  show "0 \<le> limit \<Longrightarrow> ?B" using n by simp
  show "limit < 0 \<Longrightarrow> ?B'" using n len by simp
  have "sorted_wrt (\<lambda>a b. k b \<le> k a) (take n s @ drop n s)" using srt by simp
  then have "\<forall>a\<in>set (take n s). \<forall>b\<in>set (drop n s). k b \<le> k a"
    unfolding sorted_wrt_append by blast
  moreover have "mset (take n s) + mset (drop n s) = mset kept"
    using ms by (metis append_take_drop_id mset_append)
  ultimately show ?C unfolding n(1) by blast
  have "filter (\<lambda>r. - k r = - v) s = filter (\<lambda>r. - k r = - v) kept"
    unfolding s_def sorted_reverse_def by (rule sort_key_stable)
  then have st: "filter (\<lambda>r. k r = v) s = filter (\<lambda>r. k r = v) kept" by simp
  have "prefix (filter (\<lambda>r. k r = v) (take n s)) (filter (\<lambda>r. k r = v) s)"
    by (rule filter_mono_prefix) (rule take_is_prefix)
  then show ?D unfolding n(1) st .
  show ?E unfolding n(1) using set_take_subset[of n s] ms by (metis mset_eq_setD)
qed

section \<open>The scores of one candidate\<close>

lemma candidate_scores_formula:
  assumes "candidate_scores sv loc req c = Inr st"
  shows "st_total_score st =
           (case st_skills_score st of None \<Rightarrow> 0 | Some s \<Rightarrow> s * weights_skills)
         + (case st_location_score st of None \<Rightarrow> 0 | Some s \<Rightarrow> s * weights_location)
         + (case st_experience_score st of None \<Rightarrow> 0 | Some s \<Rightarrow> s * weights_experience)"
    and "st_total_weight st =
           (case st_skills_score st of None \<Rightarrow> 0 | Some s \<Rightarrow> weights_skills)
         + (case st_location_score st of None \<Rightarrow> 0 | Some s \<Rightarrow> weights_location)
         + (case st_experience_score st of None \<Rightarrow> 0 | Some s \<Rightarrow> weights_experience)"
    and "st_skills_score st =
           (if truthy sv \<and> truthy (resume_vector c)
            then Some (calculate_skills_similarity (unwrap sv) (unwrap (resume_vector c)))
            else None)"
    and "st_experience_score st =
           (if truthy_num req \<and> total_experience c \<noteq> ExpStr []
            then Some (calculate_experience_match (total_experience c) req) else None)"
    and "\<exists>cl. (truthy loc \<longrightarrow> profile_location c = Inr cl) \<and>
           st_location_score st =
             (if truthy loc \<and> truthy cl
              then Some (calculate_location_match (unwrap loc) (unwrap cl)) else None)"
  using assms
  by (auto simp: candidate_scores_def apply_skills_def apply_location_def apply_experience_def
      init_state_def Let_def split: sum.splits if_splits)

lemma search_result_bounds:
  assumes cs: "candidate_scores sv loc req c = Inr st" and fr: "final_result ms c st = Some r"
  shows "0 \<le> location_score (scores r) \<and> location_score (scores r) \<le> 1
       \<and> 0 \<le> experience_score (scores r) \<and> experience_score (scores r) \<le> 1
       \<and> (0 \<le> skills_score (scores r) \<longrightarrow> 0 \<le> total_score (scores r))
       \<and> (skills_score (scores r) \<le> 1 \<longrightarrow> total_score (scores r) \<le> 1)"
proof -
  note f = candidate_scores_formula[OF cs]
  define T where "T = st_total_score st"
  define W where "W = st_total_weight st"
  have ex: "\<And>s. st_experience_score st = Some s \<Longrightarrow> 0 \<le> s \<and> s \<le> 1"
    using f(4) experience_bounds(1) by (auto split: if_splits)
  have lo: "\<And>s. st_location_score st = Some s \<Longrightarrow> 0 \<le> s \<and> s \<le> 1"
    using f(5) location_match_bounds by (auto split: if_splits)
  from final_result_Some[OF fr] have r: "0 < W" "total_score (scores r) = T / W"
    "skills_score (scores r) = or_zero (st_skills_score st)"
    "location_score (scores r) = or_zero (st_location_score st)"
    "experience_score (scores r) = or_zero (st_experience_score st)"
    by (simp_all add: T_def W_def)
  have TW: "(0 \<le> or_zero (st_skills_score st) \<longrightarrow> 0 \<le> T)
          \<and> (or_zero (st_skills_score st) \<le> 1 \<longrightarrow> T \<le> W)"
    unfolding T_def W_def f(1) f(2) using ex lo
    by (cases "st_skills_score st"; cases "st_location_score st"; cases "st_experience_score st")
       (auto simp: or_zero_def weights_skills_def weights_location_def weights_experience_def)
  have "0 \<le> or_zero (st_skills_score st) \<longrightarrow> 0 \<le> T / W"
    "or_zero (st_skills_score st) \<le> 1 \<longrightarrow> T / W \<le> 1"
    using TW r(1) by (simp_all add: pos_le_divide_eq pos_divide_le_eq)
  moreover have "0 \<le> or_zero (st_location_score st) \<and> or_zero (st_location_score st) \<le> 1"
    using lo by (cases "st_location_score st") (auto simp: or_zero_def)
  moreover have "0 \<le> or_zero (st_experience_score st) \<and> or_zero (st_experience_score st) \<le> 1"
    using ex by (cases "st_experience_score st") (auto simp: or_zero_def)
  ultimately show ?thesis unfolding r by blast
qed

lemma rank_scores_bounds:
  assumes "rank_candidate_scores j c = Inr (sc, tot)"
  shows "0 \<le> rank_skills_score sc \<and> rank_skills_score sc \<le> 1
       \<and> 0 \<le> rank_experience_score sc \<and> rank_experience_score sc \<le> 1
       \<and> 0 \<le> rank_location_score sc \<and> rank_location_score sc \<le> 1
       \<and> 0 \<le> tot \<and> tot \<le> 8 / 10"
proof -
  have a: "0 \<le> calculate_skills_match u v" "calculate_skills_match u v \<le> 1" for u v
    using skills_match_bounds by auto
  have b: "0 \<le> rank_calculate_experience_match e r" "rank_calculate_experience_match e r \<le> 1" for e r
    using experience_bounds(2) by auto
  have d: "0 \<le> calculate_location_match q l" "calculate_location_match q l \<le> 1" for q l
    using location_match_bounds by auto
  define s where "s = calculate_skills_match (unwrap (resume_vector c)) (unwrap (jd_vector j))"
  define e where "e = rank_calculate_experience_match (total_experience c) (required_experience j)"
  have sb: "0 \<le> s" "s \<le> 1" and eb: "0 \<le> e" "e \<le> 1" by (simp_all add: s_def e_def a b)
  from assms obtain cl where cl: "profile_location c = Inr cl"
    by (auto simp: rank_candidate_scores_def rank_location_def split: sum.splits)
  define l where "l = calculate_location_match (unwrap (location j)) (unwrap cl)"
  have lb: "0 \<le> l" "l \<le> 1" by (simp_all add: l_def d)
  show ?thesis using assms cl sb eb lb
    unfolding rank_candidate_scores_def rank_skills_def rank_experience_def rank_location_def
      rank_init_def Let_def rank_weights_skills_def rank_weights_experience_def
      rank_weights_location_def s_def[symmetric] e_def[symmetric] 
    by (auto simp: l_def[symmetric] split: if_splits)
qed

section \<open>Bounds of the score bundle\<close>

text \<open>
  C3, as the code has it. Every result of the ranking operation has its skills,
  experience and location sub-scores in [0, 1] and its total in [0, 0.8], the sum of the
  three weights in use. Every result of the search operation has its location and
  experience sub-scores in [0, 1]. Its skills sub-score is the best cosine as computed,
  without a clamp, so it is not confined to [0, 1] and neither is the total: the total is
  non-negative whenever the skills sub-score is, and at most 1 whenever the skills
  sub-score is.
\<close>

theorem score_bundle_bounds:
  "(\<forall>r \<in> set (rank_candidates_for_job d jid ms limit).
       0 \<le> rank_skills_score (rank_scores_of r) \<and> rank_skills_score (rank_scores_of r) \<le> 1
     \<and> 0 \<le> rank_experience_score (rank_scores_of r) \<and> rank_experience_score (rank_scores_of r) \<le> 1
     \<and> 0 \<le> rank_location_score (rank_scores_of r) \<and> rank_location_score (rank_scores_of r) \<le> 1
     \<and> 0 \<le> rank_total_score r \<and> rank_total_score r \<le> 0.8)
   \<and> (search_candidates d sv loc req ms limit = Inr out \<longrightarrow>
        (\<forall>r \<in> set out.
           0 \<le> location_score (scores r) \<and> location_score (scores r) \<le> 1
         \<and> 0 \<le> experience_score (scores r) \<and> experience_score (scores r) \<le> 1
         \<and> (0 \<le> skills_score (scores r) \<longrightarrow> 0 \<le> total_score (scores r))
         \<and> (skills_score (scores r) \<le> 1 \<longrightarrow> total_score (scores r) \<le> 1)))"
proof (intro conjI impI ballI)
  fix r assume r: "r \<in> set (rank_candidates_for_job d jid ms limit)"
  then obtain j kept where kept: "rank_loop j ms (candidates d) = Inr kept"
    and out: "rank_candidates_for_job d jid ms limit = slice_to limit (sorted_reverse rank_total_score kept)"
    by (auto simp: rank_candidates_for_job_def rank_body_def split: option.splits if_splits sum.splits)
  from r out selection(6)[where limit=limit and k=rank_total_score and kept=kept] have "r \<in> set kept" by auto
  from rank_loop_elems[OF kept this] obtain c sc tot where
    "rank_candidate_scores j c = Inr (sc, tot)"
    "r = \<lparr>rank_candidate = c, rank_scores_of = sc, rank_total_score = tot\<rparr>" by blast
  with rank_scores_bounds[of j c sc tot]
  have b: "0 \<le> rank_skills_score (rank_scores_of r) \<and> rank_skills_score (rank_scores_of r) \<le> 1
     \<and> 0 \<le> rank_experience_score (rank_scores_of r) \<and> rank_experience_score (rank_scores_of r) \<le> 1
     \<and> 0 \<le> rank_location_score (rank_scores_of r) \<and> rank_location_score (rank_scores_of r) \<le> 1
     \<and> 0 \<le> rank_total_score r \<and> rank_total_score r \<le> 0.8" by simp
  from b show "0 \<le> rank_skills_score (rank_scores_of r)" by blast
  from b show "rank_skills_score (rank_scores_of r) \<le> 1" by blast
  from b show "0 \<le> rank_experience_score (rank_scores_of r)" by blast
  from b show "rank_experience_score (rank_scores_of r) \<le> 1" by blast
  from b show "0 \<le> rank_location_score (rank_scores_of r)" by blast
  from b show "rank_location_score (rank_scores_of r) \<le> 1" by blast
  from b show "0 \<le> rank_total_score r" by blast
  from b show "rank_total_score r \<le> 0.8" by blast
next
  fix r assume s: "search_candidates d sv loc req ms limit = Inr out" and r: "r \<in> set out"
  from s obtain kept where kept: "search_loop sv loc req ms (candidates d) = Inr kept"
    and out: "out = slice_to limit (sorted_reverse (\<lambda>x. total_score (scores x)) kept)"
    by (auto simp: search_candidates_def split: sum.splits)
  from r out selection(6)[where limit=limit and k="\<lambda>x. total_score (scores x)" and kept=kept] have "r \<in> set kept" by auto
  from search_loop_elems[OF kept this] obtain c st where
    "candidate_scores sv loc req c = Inr st" "final_result ms c st = Some r" by blast
  from search_result_bounds[OF this]
  have b: "0 \<le> location_score (scores r) \<and> location_score (scores r) \<le> 1
       \<and> 0 \<le> experience_score (scores r) \<and> experience_score (scores r) \<le> 1
       \<and> (0 \<le> skills_score (scores r) \<longrightarrow> 0 \<le> total_score (scores r))
       \<and> (skills_score (scores r) \<le> 1 \<longrightarrow> total_score (scores r) \<le> 1)" .
  from b show "0 \<le> location_score (scores r)" by blast
  from b show "location_score (scores r) \<le> 1" by blast
  from b show "0 \<le> experience_score (scores r)" by blast
  from b show "experience_score (scores r) \<le> 1" by blast
  from b show "0 \<le> total_score (scores r)" if "0 \<le> skills_score (scores r)" using that by blast
  from b show "total_score (scores r) \<le> 1" if "skills_score (scores r) \<le> 1" using that by blast
qed

text \<open>
  With a minimum score of 0, a candidate whose vector has cosine -3/5 to the query, with
  the query's location and the required years, is returned with the skills sub-score
  -3/5, which is not in [0, 1].
\<close>

theorem search_skills_score_negative:
  "search_candidates \<lparr>jobs = [], candidates = [opposed]\<rparr>
      (Some [Some [1, 0]]) (Some ''Austin'') (Some 5) 0 10 =
     Inr [\<lparr>candidate = opposed,
           scores = \<lparr>skills_score = - 3 / 5, location_score = 1, experience_score = 1,
                     total_score = 1 / 25\<rparr>\<rparr>]
   \<and> \<not> (0 \<le> (- 3 / 5 :: real))"
  by (simp add: opposed_search)

theorem score_bundle_bounds_witness:
  "search_candidates \<lparr>jobs = [], candidates = [opposed]\<rparr>
      (Some [Some [1, 0]]) (Some ''Austin'') (Some 5) 0 10 =
     Inr [\<lparr>candidate = opposed,
           scores = \<lparr>skills_score = - 3 / 5, location_score = 1, experience_score = 1,
                     total_score = 1 / 25\<rparr>\<rparr>]
   \<and> (- 3 / 5 :: real) \<le> 1 \<and> (1 / 25 :: real) \<le> 1
   \<and> search_candidates \<lparr>jobs = [], candidates = [search_c1 (ExpStr []), search_c2]\<rparr>
        (Some [Some [1, 0, 0, 0]]) (Some ''Austin, TX'') (Some 5) (1 / 2) 10 =
       Inr [result_c1, result_c2]
   \<and> 0 \<le> skills_score (scores result_c1) \<and> 0 \<le> total_score (scores result_c1)
   \<and> rank_candidates_for_job \<lparr>jobs = [rank_job], candidates = [rank_a, rank_b]\<rparr> 1 (1 / 2) 10 =
       [\<lparr>rank_candidate = rank_a,
         rank_scores_of =
           \<lparr>rank_skills_score = 1, rank_experience_score = 1, rank_location_score = 0\<rparr>,
         rank_total_score = 7 / 10\<rparr>]
   \<and> (7 / 10 :: real) \<le> 8 / 10"
  using score_bundle_bounds
          [where d = "\<lparr>jobs = [], candidates = [opposed]\<rparr>" and jid = 1 and ms = 0
             and limit = 10 and sv = "Some [Some [1, 0]]" and loc = "Some ''Austin''"
             and req = "Some 5"
             and out = "[\<lparr>candidate = opposed,
                   scores = \<lparr>skills_score = - 3 / 5, location_score = 1, experience_score = 1,
                             total_score = 1 / 25\<rparr>\<rparr>]"]
        score_bundle_bounds
          [where d = "\<lparr>jobs = [], candidates = [search_c1 (ExpStr []), search_c2]\<rparr>"
             and jid = 1 and ms = "1 / 2" and limit = 10
             and sv = "Some [Some [1, 0, 0, 0]]" and loc = "Some ''Austin, TX''"
             and req = "Some 5" and out = "[result_c1, result_c2]"]
        score_bundle_bounds
          [where d = "\<lparr>jobs = [rank_job], candidates = [rank_a, rank_b]\<rparr>" and jid = 1
             and ms = "1 / 2" and limit = 10]
        opposed_search scenario_empty_experience rank_scenario
  by (simp add: result_c1_def)

section \<open>Order, threshold and truncation of the results\<close>

lemma search_loop_scenario:
  "search_loop (Some [Some [1, 0, 0, 0]]) (Some ''Austin, TX'') (Some 5) (1 / 2)
      [search_c1 (ExpStr []), search_c2] = Inr [result_c1, result_c2]"
  by (simp add: search_defs search_c1_def search_c2_def skills_c1 skills_c2 location_austin_tx
      result_c1_def result_c2_def)

lemma rank_loop_scenario:
  "rank_loop rank_job (1 / 2) [rank_a, rank_b] = Inr [\<lparr>rank_candidate = rank_a,
         rank_scores_of = \<lparr>rank_skills_score = 1, rank_experience_score = 1, rank_location_score = 0\<rparr>,
         rank_total_score = 7 / 10\<rparr>]"
  by (simp add: rank_defs rank_job_def rank_a_def rank_b_def skills_match_same)

text \<open>
  C7, as the code has it. When the scan of the candidates succeeds with the list
  \<open>kept\<close> of the results that reach the minimum score (in candidate order), the search
  operation returns a list that is sorted by descending total, whose length is at most
  the limit when the limit is non-negative (a negative limit is a slice from the end: the
  last \<open>-limit\<close> results are dropped), that together with the dropped results is
  \<open>kept\<close>, whose totals are all at least those of the dropped results, and in which the
  results of equal total keep their candidate order (they are a prefix of the results of
  that total in \<open>kept\<close>). Every kept result has a total of at least the minimum score.
  The same holds for the ranking operation of an existing job.
\<close>

theorem results_sorted_truncated_stable:
  "(search_loop sv loc req ms (candidates d) = Inr kept \<longrightarrow>
      (\<exists>out dropped.
          search_candidates d sv loc req ms limit = Inr out
        \<and> sorted_wrt (\<lambda>a b. total_score (scores b) \<le> total_score (scores a)) out
        \<and> (0 \<le> limit \<longrightarrow> int (length out) \<le> limit)
        \<and> (limit < 0 \<longrightarrow> length out = length kept - nat (- limit))
        \<and> mset out + mset dropped = mset kept
        \<and> (\<forall>a\<in>set out. \<forall>b\<in>set dropped. total_score (scores b) \<le> total_score (scores a))
        \<and> (\<forall>r\<in>set kept. ms \<le> total_score (scores r))
        \<and> subseq (map candidate kept) (candidates d)
        \<and> (\<forall>v. prefix (filter (\<lambda>r. total_score (scores r) = v) out)
                       (filter (\<lambda>r. total_score (scores r) = v) kept))))
   \<and> (find (\<lambda>j. job_id j = jid) (jobs d) = Some j \<and> rank_loop j ms (candidates d) = Inr rkept \<longrightarrow>
      (\<exists>rout rdropped.
          rank_candidates_for_job d jid ms limit = rout
        \<and> sorted_wrt (\<lambda>a b. rank_total_score b \<le> rank_total_score a) rout
        \<and> (0 \<le> limit \<longrightarrow> int (length rout) \<le> limit)
        \<and> (limit < 0 \<longrightarrow> length rout = length rkept - nat (- limit))
        \<and> mset rout + mset rdropped = mset rkept
        \<and> (\<forall>a\<in>set rout. \<forall>b\<in>set rdropped. rank_total_score b \<le> rank_total_score a)
        \<and> (\<forall>r\<in>set rkept. ms \<le> rank_total_score r)
        \<and> subseq (map rank_candidate rkept) (candidates d)
        \<and> (\<forall>v. prefix (filter (\<lambda>r. rank_total_score r = v) rout)
                       (filter (\<lambda>r. rank_total_score r = v) rkept))))"
proof (intro conjI impI)
  assume kept: "search_loop sv loc req ms (candidates d) = Inr kept"
  define k where "k = (\<lambda>x::search_result. total_score (scores x))"
  define out where "out = slice_to limit (sorted_reverse k kept)"
  note sel = selection[where limit=limit and k=k and kept=kept, folded out_def]
  from sel(4) obtain dropped where dr: "mset out + mset dropped = mset kept"
    "\<forall>a\<in>set out. \<forall>b\<in>set dropped. k b \<le> k a" by blast
  have thr: "\<forall>r\<in>set kept. ms \<le> k r"
    using search_loop_elems[OF kept] final_result_Some unfolding k_def by blast
  have "search_candidates d sv loc req ms limit = Inr out"
    by (simp add: search_candidates_def kept out_def k_def)
  with sel(1,2,3,5) dr thr search_loop_subseq[OF kept]
  show "\<exists>out dropped.
          search_candidates d sv loc req ms limit = Inr out
        \<and> sorted_wrt (\<lambda>a b. total_score (scores b) \<le> total_score (scores a)) out
        \<and> (0 \<le> limit \<longrightarrow> int (length out) \<le> limit)
        \<and> (limit < 0 \<longrightarrow> length out = length kept - nat (- limit))
        \<and> mset out + mset dropped = mset kept
        \<and> (\<forall>a\<in>set out. \<forall>b\<in>set dropped. total_score (scores b) \<le> total_score (scores a))
        \<and> (\<forall>r\<in>set kept. ms \<le> total_score (scores r))
        \<and> subseq (map candidate kept) (candidates d)
        \<and> (\<forall>v. prefix (filter (\<lambda>r. total_score (scores r) = v) out)
                       (filter (\<lambda>r. total_score (scores r) = v) kept))"
    unfolding k_def by blast
next
  assume a: "find (\<lambda>j. job_id j = jid) (jobs d) = Some j \<and> rank_loop j ms (candidates d) = Inr rkept"
  then have kept: "rank_loop j ms (candidates d) = Inr rkept" by simp
  define out where "out = slice_to limit (sorted_reverse rank_total_score rkept)"
  note sel = selection[where limit=limit and k=rank_total_score and kept=rkept, folded out_def]
  from sel(4) obtain dropped where dr: "mset out + mset dropped = mset rkept"
    "\<forall>a\<in>set out. \<forall>b\<in>set dropped. rank_total_score b \<le> rank_total_score a" by blast
  have thr: "\<forall>r\<in>set rkept. ms \<le> rank_total_score r"
    using rank_loop_elems[OF kept] by fastforce
  have e: "rkept = []" if "candidates d = []" using kept that by simp
  have "rank_candidates_for_job d jid ms limit = out"
    using a e by (auto simp: rank_candidates_for_job_def rank_body_def out_def slice_to_def sorted_reverse_def)
  with sel(1,2,3,5) dr thr rank_loop_subseq[OF kept]
  show "\<exists>rout rdropped.
          rank_candidates_for_job d jid ms limit = rout
        \<and> sorted_wrt (\<lambda>a b. rank_total_score b \<le> rank_total_score a) rout
        \<and> (0 \<le> limit \<longrightarrow> int (length rout) \<le> limit)
        \<and> (limit < 0 \<longrightarrow> length rout = length rkept - nat (- limit))
        \<and> mset rout + mset rdropped = mset rkept
        \<and> (\<forall>a\<in>set rout. \<forall>b\<in>set rdropped. rank_total_score b \<le> rank_total_score a)
        \<and> (\<forall>r\<in>set rkept. ms \<le> rank_total_score r)
        \<and> subseq (map rank_candidate rkept) (candidates d)
        \<and> (\<forall>v. prefix (filter (\<lambda>r. rank_total_score r = v) rout)
                       (filter (\<lambda>r. rank_total_score r = v) rkept))"
    by blast
qed

text \<open>With the limit -1 the search returns one of two results: more than the limit.\<close>

theorem negative_limit_exceeds:
  "search_candidates \<lparr>jobs = [], candidates = [search_c1 (ExpStr []), search_c2]\<rparr>
      (Some [Some [1, 0, 0, 0]]) (Some ''Austin, TX'') (Some 5) (1 / 2) (- 1) = Inr [result_c1]
   \<and> \<not> int (length [result_c1]) \<le> - 1"
  by (simp add: search_defs search_c1_def search_c2_def skills_c1 skills_c2 location_austin_tx
      result_c1_def result_c2_def)

theorem results_sorted_truncated_stable_witness:
  "search_loop (Some [Some [1, 0, 0, 0]]) (Some ''Austin, TX'') (Some 5) (1 / 2)
      (candidates \<lparr>jobs = [], candidates = [search_c1 (ExpStr []), search_c2]\<rparr>) =
     Inr [result_c1, result_c2]
   \<and> (\<exists>out. search_candidates \<lparr>jobs = [], candidates = [search_c1 (ExpStr []), search_c2]\<rparr>
               (Some [Some [1, 0, 0, 0]]) (Some ''Austin, TX'') (Some 5) (1 / 2) 1 = Inr out
            \<and> int (length out) \<le> 1
            \<and> sorted_wrt (\<lambda>a b. total_score (scores b) \<le> total_score (scores a)) out)
   \<and> find (\<lambda>j. job_id j = 1) (jobs \<lparr>jobs = [rank_job], candidates = [rank_a, rank_b]\<rparr>) =
       Some rank_job
   \<and> (\<exists>kept. rank_loop rank_job (1 / 2)
                 (candidates \<lparr>jobs = [rank_job], candidates = [rank_a, rank_b]\<rparr>) = Inr kept
            \<and> int (length (rank_candidates_for_job
                 \<lparr>jobs = [rank_job], candidates = [rank_a, rank_b]\<rparr> 1 (1 / 2) 1)) \<le> 1)"
proof -
  have a: "search_loop (Some [Some [1, 0, 0, 0]]) (Some ''Austin, TX'') (Some 5) (1 / 2)
      (candidates \<lparr>jobs = [], candidates = [search_c1 (ExpStr []), search_c2]\<rparr>) =
     Inr [result_c1, result_c2]"
    using search_loop_scenario by simp
  have b: "find (\<lambda>j. job_id j = 1) (jobs \<lparr>jobs = [rank_job], candidates = [rank_a, rank_b]\<rparr>) =
       Some rank_job"
    by (simp add: rank_job_def)
  have c: "rank_loop rank_job (1 / 2)
       (candidates \<lparr>jobs = [rank_job], candidates = [rank_a, rank_b]\<rparr>) =
     Inr [\<lparr>rank_candidate = rank_a,
           rank_scores_of =
             \<lparr>rank_skills_score = 1, rank_experience_score = 1, rank_location_score = 0\<rparr>,
           rank_total_score = 7 / 10\<rparr>]"
    using rank_loop_scenario by simp
  have one: "(0::int) \<le> 1" by simp
  from results_sorted_truncated_stable
         [where sv = "Some [Some [1, 0, 0, 0]]" and loc = "Some ''Austin, TX''"
            and req = "Some 5" and ms = "1 / 2" and limit = 1
            and d = "\<lparr>jobs = [], candidates = [search_c1 (ExpStr []), search_c2]\<rparr>"
            and kept = "[result_c1, result_c2]"] a one
  have s: "\<exists>out. search_candidates \<lparr>jobs = [], candidates = [search_c1 (ExpStr []), search_c2]\<rparr>
               (Some [Some [1, 0, 0, 0]]) (Some ''Austin, TX'') (Some 5) (1 / 2) 1 = Inr out
            \<and> int (length out) \<le> 1
            \<and> sorted_wrt (\<lambda>a b. total_score (scores b) \<le> total_score (scores a)) out"
    by blast
  from results_sorted_truncated_stable
         [where ms = "1 / 2" and limit = 1 and jid = 1 and j = rank_job
            and d = "\<lparr>jobs = [rank_job], candidates = [rank_a, rank_b]\<rparr>"
            and rkept = "[\<lparr>rank_candidate = rank_a,
                 rank_scores_of =
                   \<lparr>rank_skills_score = 1, rank_experience_score = 1, rank_location_score = 0\<rparr>,
                 rank_total_score = 7 / 10\<rparr>]"] b c one
  have r: "int (length (rank_candidates_for_job
                 \<lparr>jobs = [rank_job], candidates = [rank_a, rank_b]\<rparr> 1 (1 / 2) 1)) \<le> 1"
    by blast
  from a s b c r show ?thesis by blast
qed

section \<open>A candidate without experience data in search\<close>

text \<open>
  C1, the code on a candidate whose \<open>total_experience\<close> is null, for a query with skills
  and 5 required years: the experience criterion is applied with sub-score 0 and its
  weight 0.2 is counted, so the candidate of cosine 9/10 gets the total
  \<open>(0.9 * 0.6 + 0 * 0.2) / 0.8 = 27/40\<close> and not 9/10.
\<close>

theorem null_experience_is_weighted:
  "candidate_scores (Some [Some [1, 0, 0, 0]]) None (Some 5) (search_c1 ExpNull) =
     Inr \<lparr>st_skills_score = Some (9 / 10), st_location_score = None,
          st_experience_score = Some 0, st_total_score = 27 / 50, st_total_weight = 8 / 10\<rparr>
   \<and> search_candidates \<lparr>jobs = [], candidates = [search_c1 ExpNull]\<rparr>
        (Some [Some [1, 0, 0, 0]]) None (Some 5) (1 / 2) 10 =
     Inr [\<lparr>candidate = search_c1 ExpNull,
           scores = \<lparr>skills_score = 9 / 10, location_score = 0, experience_score = 0,
                     total_score = 27 / 40\<rparr>\<rparr>]"
  by (simp add: search_defs search_c1_def skills_c1)

text \<open>
  C6, the code on the scenario when the first candidate's \<open>total_experience\<close> is null: it
  gets the total 27/40, the second candidate gets 7/10, and the order returned is second,
  first. (When the field is the empty string, the only value the search path skips, the
  totals are 9/10 and 7/10 and the order is first, second: \<open>scenario_empty_experience\<close>.)
\<close>

theorem scenario_null_experience:
  "search_candidates \<lparr>jobs = [], candidates = [search_c1 ExpNull, search_c2]\<rparr>
      (Some [Some [1, 0, 0, 0]]) (Some ''Austin, TX'') (Some 5) (1 / 2) 10 =
     Inr [result_c2,
          \<lparr>candidate = search_c1 ExpNull,
           scores = \<lparr>skills_score = 9 / 10, location_score = 0, experience_score = 0,
                     total_score = 27 / 40\<rparr>\<rparr>]"
  by (simp add: search_defs search_c1_def search_c2_def skills_c1 skills_c2 location_austin_tx
      result_c2_def)

end
